theory Spec2Isabelle
  imports Main "HOL-Library.Sublist"
begin

section \<open>Data model\<close>

text \<open>
  The program is an MCP server (\<^verbatim>\<open>src/mcp.ts\<close>, version 0.0.2, and the entry point
  \<^verbatim>\<open>index.ts\<close> with the version 0.0.1 of \<^verbatim>\<open>mcp.ts\<close>) whose tool handlers read files,
  hand them to the UploadThing client and render the per-item results into one text
  response. The file system and the UploadThing client are collaborators: their
  behaviour during one tool call is a parameter of the model (\<open>sys\<close>), and every call a
  handler makes to them is recorded in a trace.

  A JSON value is represented by the text \<^verbatim>\<open>JSON.stringify\<close> gives for it; a nullable
  field is an \<open>option\<close>, \<open>None\<close> being \<^verbatim>\<open>null\<close>.
\<close>

type_synonym json = string
type_synonym buffer = string

text \<open>The object \<^verbatim>\<open>{ filePath, fileName, fileType }\<close> of the \<^verbatim>\<open>upload-files\<close> schema.\<close>

record file_req =
  filePath :: string
  fileName :: string
  fileType :: string

text \<open>A \<^verbatim>\<open>File\<close>: \<^verbatim>\<open>new File([buffer], name, { type })\<close>.\<close>

record file_obj =
  bytes :: buffer
  name :: string
  type :: string

text \<open>
  The value \<^verbatim>\<open>fs.readFile\<close> rejects with: a Node system error, with its \<^verbatim>\<open>message\<close> and
  the text \<^verbatim>\<open>JSON.stringify\<close> gives for it.
\<close>

record read_error =
  message :: string
  jsonText :: json

text \<open>
  A thrown value: an \<^verbatim>\<open>Error\<close> instance with its message, or anything else (the handlers
  only ask \<^verbatim>\<open>error instanceof Error\<close> and read \<^verbatim>\<open>error.message\<close>).
\<close>

datatype thrown = JsError string | NonError

text \<open>One element of \<^verbatim>\<open>Promise.allSettled\<close>'s result.\<close>

datatype 'a settled = Fulfilled 'a | Rejected read_error

text \<open>One per-item result of the UploadThing client: \<^verbatim>\<open>{ data, error }\<close>.\<close>

record upload_result =
  data :: "json option"
  error :: "json option"

text \<open>The response envelope; \<open>isError = None\<close> is the field left out.\<close>

datatype content = Text string

record response =
  content :: "content list"
  isError :: "bool option"

text \<open>The collaborators as one tool call sees them.\<close>

record sys =
  readFile :: "string \<Rightarrow> read_error + buffer"
  uploadFiles :: "file_obj list \<Rightarrow> thrown + upload_result list"
  uploadFile :: "file_obj \<Rightarrow> thrown + upload_result"
  uploadFilesFromUrl :: "string list \<Rightarrow> thrown + upload_result list"

text \<open>The calls a handler makes to its collaborators, in the order it issues them.\<close>

datatype call =
  ReadFile string
  | UploadFiles "file_obj list"
  | UploadFile file_obj
  | UploadFilesFromUrl "string list"

section \<open>JavaScript primitives the handlers use\<close>

text \<open>\<^verbatim>\<open>xs.join(sep)\<close>\<close>

fun join :: "string \<Rightarrow> string list \<Rightarrow> string" where
  "join sep [] = []"
| "join sep [x] = x"
| "join sep (x # y # ys) = x @ sep @ join sep (y # ys)"

text \<open>\<^verbatim>\<open>xs[idx]\<close>: \<^verbatim>\<open>undefined\<close> (\<open>None\<close>) out of range.\<close>

definition at :: "'a list \<Rightarrow> nat \<Rightarrow> 'a option" where
  "at xs idx = (if idx < length xs then Some (xs ! idx) else None)"

text \<open>\<^verbatim>\<open>xs.map((x, idx) => f(x, idx))\<close>\<close>

definition map_idx :: "('a \<Rightarrow> nat \<Rightarrow> 'b) \<Rightarrow> 'a list \<Rightarrow> 'b list" where
  "map_idx f xs = map (\<lambda>(idx, x). f x idx) (enumerate 0 xs)"

text \<open>\<^verbatim>\<open>JSON.stringify\<close> of a nullable payload.\<close>

fun JSON_stringify :: "json option \<Rightarrow> string" where
  "JSON_stringify None = ''null''"
| "JSON_stringify (Some t) = t"

text \<open>Truthiness of a nullable payload (\<^verbatim>\<open>.filter((result) => result.error)\<close>).\<close>

fun truthy :: "'a option \<Rightarrow> bool" where
  "truthy None = False"
| "truthy (Some _) = True"

definition newline :: string where
  "newline = [CHR 0x0A]"

definition spaces :: "nat \<Rightarrow> string" where
  "spaces n = replicate n (CHR '' '')"

text \<open>\<^verbatim>\<open>error instanceof Error ? error.message : "Unknown error"\<close>\<close>

fun error_message :: "thrown \<Rightarrow> string" where
  "error_message (JsError m) = m"
| "error_message NonError = ''Unknown error''"

text \<open>The error response both \<^verbatim>\<open>catch\<close> blocks build, with the tool's prefix.\<close>

definition error_response :: "string \<Rightarrow> thrown \<Rightarrow> response" where
  "error_response label e =
     \<lparr>content = [Text (label @ error_message e)], isError = Some True\<rparr>"

text \<open>How a client reads the optional flag: left out means no error.\<close>

definition is_error :: "response \<Rightarrow> bool" where
  "is_error r = (isError r = Some True)"

text \<open>The text of a response that holds one text item.\<close>

definition text_of :: "response \<Rightarrow> string" where
  "text_of r = (case content r of [Text t] \<Rightarrow> t | _ \<Rightarrow> [])"

section \<open>The \<^verbatim>\<open>upload-files\<close> handler (\<^verbatim>\<open>mcp.ts\<close>, version 0.0.2)\<close>

text \<open>
  The callback of \<^verbatim>\<open>params.files.map\<close>: read the file, wrap the bytes in a \<^verbatim>\<open>File\<close>. Its
  promise settles as fulfilled with the \<^verbatim>\<open>File\<close> or as rejected with the read error.
\<close>

definition materialize :: "sys \<Rightarrow> file_req \<Rightarrow> file_obj settled" where
  "materialize s file =
     (case readFile s (filePath file) of
        Inl reason \<Rightarrow> Rejected reason
      | Inr buffer \<Rightarrow>
          Fulfilled \<lparr>bytes = buffer, name = fileName file, type = fileType file\<rparr>)"

fun rejected :: "'a settled \<Rightarrow> bool" where
  "rejected (Rejected _) = True"
| "rejected (Fulfilled _) = False"

text \<open>
  \<^verbatim>\<open>files.map((file, idx) => ({...file, path: params.files[idx].filePath}))
       .filter((file) => file.status === "rejected")\<close>.
  \<open>files\<close> is the settled image of \<open>params_files\<close>, so \<open>idx\<close> is always in range.
\<close>

definition failedFiles ::
  "file_req list \<Rightarrow> file_obj settled list \<Rightarrow> (file_obj settled \<times> string) list" where
  "failedFiles params_files files =
     filter (\<lambda>(file, path). rejected file)
       (map_idx (\<lambda>file idx. (file, filePath (params_files ! idx))) files)"

text \<open>\<^verbatim>\<open>`${file.path}: ${JSON.stringify(file.reason)}`\<close>\<close>

fun failed_file_entry :: "file_obj settled \<times> string \<Rightarrow> string" where
  "failed_file_entry (Rejected reason, path) = path @ '': '' @ jsonText reason"
| "failed_file_entry (Fulfilled _, path) = path @ '': '' @ ''undefined''"

text \<open>
  \<^verbatim>\<open>files.filter((file) => file.status === "fulfilled").map((file) => file.value)\<close>
  (the name is the source's).
\<close>

fun succesfulFiles :: "'a settled list \<Rightarrow> 'a list" where
  "succesfulFiles [] = []"
| "succesfulFiles (Fulfilled v # files) = v # succesfulFiles files"
| "succesfulFiles (Rejected _ # files) = succesfulFiles files"

text \<open>
  \<^verbatim>\<open>results.map((result, idx) => ({error: result.error, file: succesfulFiles[idx]}))
         .filter((result) => result.error)\<close>
  and its twin on \<^verbatim>\<open>data\<close>; the pair is (payload, item), the item \<^verbatim>\<open>undefined\<close> where the
  client returned more results than it was given items.
\<close>

definition failedUploads ::
  "upload_result list \<Rightarrow> 'a list \<Rightarrow> (json option \<times> 'a option) list" where
  "failedUploads results items =
     filter (\<lambda>(payload, item). truthy payload)
       (map_idx (\<lambda>result idx. (error result, at items idx)) results)"

definition successfulUploads ::
  "upload_result list \<Rightarrow> 'a list \<Rightarrow> (json option \<times> 'a option) list" where
  "successfulUploads results items =
     filter (\<lambda>(payload, item). truthy payload)
       (map_idx (\<lambda>result idx. (data result, at items idx)) results)"

text \<open>
  \<^verbatim>\<open>`${upload.file.name}: ${JSON.stringify(upload.data)}`\<close>: reading \<^verbatim>\<open>name\<close> of
  \<^verbatim>\<open>undefined\<close> throws a \<^verbatim>\<open>TypeError\<close>, which ends the \<^verbatim>\<open>map\<close>.
\<close>

definition TypeError_name :: thrown where
  "TypeError_name =
     JsError (''Cannot read properties of undefined (reading '' @ [CHR 0x27] @ ''name''
       @ [CHR 0x27] @ '')'')"

fun named_entry :: "json option \<times> file_obj option \<Rightarrow> thrown + string" where
  "named_entry (payload, Some file) = Inr (name file @ '': '' @ JSON_stringify payload)"
| "named_entry (payload, None) = Inl TypeError_name"

fun named_entries :: "(json option \<times> file_obj option) list \<Rightarrow> thrown + string list" where
  "named_entries [] = Inr []"
| "named_entries (u # us) =
     (case named_entry u of
        Inl e \<Rightarrow> Inl e
      | Inr t \<Rightarrow> (case named_entries us of Inl e \<Rightarrow> Inl e | Inr ts \<Rightarrow> Inr (t # ts)))"

text \<open>The inner \<^verbatim>\<open>try\<close> block; its \<^verbatim>\<open>catch\<close> logs and rethrows.\<close>

definition upload_stage :: "sys \<Rightarrow> file_obj list \<Rightarrow> (thrown + response) \<times> call list" where
  "upload_stage s succesful =
     (case uploadFiles s succesful of
        Inl uploadError \<Rightarrow> Inl uploadError
      | Inr results \<Rightarrow>
          (let failed = failedUploads results succesful;
               successful = successfulUploads results succesful
           in if length failed > 0 then
                (case named_entries successful of
                   Inl e \<Rightarrow> Inl e
                 | Inr oks \<Rightarrow>
                     (case named_entries failed of
                        Inl e \<Rightarrow> Inl e
                      | Inr fails \<Rightarrow>
                          Inl (JsError
                            (newline @ spaces 14 @ ''Successfully uploaded files: ''
                             @ join '', '' oks @ newline @ newline @ newline @ newline
                             @ spaces 14 @ ''Failed to upload files: ''
                             @ join '', '' fails @ newline @ spaces 14))))
              else
                (case named_entries successful of
                   Inl e \<Rightarrow> Inl e
                 | Inr oks \<Rightarrow>
                     Inr \<lparr>content =
                            [Text (newline @ spaces 16 @ ''Successfully uploaded files: ''
                                   @ join '', '' oks @ newline @ spaces 16)],
                          isError = None\<rparr>)),
      [UploadFiles succesful])"

text \<open>The outer \<^verbatim>\<open>try\<close> block.\<close>

definition upload_files_try ::
  "sys \<Rightarrow> file_req list \<Rightarrow> (thrown + response) \<times> call list" where
  "upload_files_try s params_files =
     (let files = map (materialize s) params_files;
          reads = map (\<lambda>file. ReadFile (filePath file)) params_files;
          failed = failedFiles params_files files
      in if length failed > 0 then
           (Inl (JsError (''Failed to read files given the following paths: ''
                          @ join '', '' (map failed_file_entry failed))),
            reads)
         else
           (let succesful = succesfulFiles files
            in if length succesful = 0 then
                 (Inl (JsError ''No files could be read to be uploaded''), reads)
               else
                 (case upload_stage s succesful of
                    (r, calls) \<Rightarrow> (r, reads @ calls))))"

text \<open>The handler: the outer \<^verbatim>\<open>try\<close> with its \<^verbatim>\<open>catch\<close>.\<close>

definition upload_files :: "sys \<Rightarrow> file_req list \<Rightarrow> response \<times> call list" where
  "upload_files s params_files =
     (case upload_files_try s params_files of
        (Inl e, calls) \<Rightarrow> (error_response ''Files upload failed: '' e, calls)
      | (Inr r, calls) \<Rightarrow> (r, calls))"

section \<open>The \<^verbatim>\<open>upload-files-from-urls\<close> handler (\<^verbatim>\<open>mcp.ts\<close>, version 0.0.2)\<close>

text \<open>
  \<^verbatim>\<open>`${upload.url}: ${JSON.stringify(upload.data)}`\<close>: an \<^verbatim>\<open>undefined\<close> url prints as
  \<^verbatim>\<open>undefined\<close>.
\<close>

fun url_entry :: "json option \<times> string option \<Rightarrow> string" where
  "url_entry (payload, Some url) = url @ '': '' @ JSON_stringify payload"
| "url_entry (payload, None) = ''undefined'' @ '': '' @ JSON_stringify payload"

definition upload_files_from_urls_try ::
  "sys \<Rightarrow> string list \<Rightarrow> (thrown + response) \<times> call list" where
  "upload_files_from_urls_try s urls =
     (case uploadFilesFromUrl s urls of
        Inl e \<Rightarrow> Inl e
      | Inr results \<Rightarrow>
          (let failed = failedUploads results urls;
               successful = successfulUploads results urls
           in if length failed > 0 then
                Inl (JsError
                  (newline @ spaces 14 @ ''Successfully uploaded files by URL: ''
                   @ join '', '' (map url_entry successful)
                   @ newline @ newline @ newline @ newline
                   @ spaces 14 @ ''Failed to upload files by URL: ''
                   @ join '', '' (map url_entry failed) @ newline @ spaces 14))
              else
                Inr \<lparr>content =
                       [Text (newline @ spaces 16 @ ''Successfully uploaded files by URL: ''
                              @ join '', '' (map url_entry successful)
                              @ newline @ spaces 16)],
                     isError = None\<rparr>),
      [UploadFilesFromUrl urls])"

definition upload_files_from_urls :: "sys \<Rightarrow> string list \<Rightarrow> response \<times> call list" where
  "upload_files_from_urls s urls =
     (case upload_files_from_urls_try s urls of
        (Inl e, calls) \<Rightarrow> (error_response ''Files by URL upload failed: '' e, calls)
      | (Inr r, calls) \<Rightarrow> (r, calls))"

section \<open>The \<^verbatim>\<open>upload-file\<close> handler (\<^verbatim>\<open>mcp.ts\<close>, version 0.0.1)\<close>

text \<open>
  The parameters \<^verbatim>\<open>{ file, fileName, fileType }\<close> are the three arguments. A failed read
  is thrown as it is (a Node \<^verbatim>\<open>Error\<close>) and reaches the outer \<^verbatim>\<open>catch\<close>.
\<close>

definition upload_file_try ::
  "sys \<Rightarrow> string \<Rightarrow> string \<Rightarrow> string \<Rightarrow> (thrown + response) \<times> call list" where
  "upload_file_try s file file_name file_type =
     (case readFile s file of
        Inl reason \<Rightarrow> (Inl (JsError (message reason)), [ReadFile file])
      | Inr buffer \<Rightarrow>
          (let fileObj = \<lparr>bytes = buffer, name = file_name, type = file_type\<rparr>
           in (case uploadFile s fileObj of
                 Inl uploadError \<Rightarrow> Inl uploadError
               | Inr result \<Rightarrow>
                   if truthy (error result) then
                     Inl (JsError (''Upload failed: '' @ JSON_stringify (error result)))
                   else
                     Inr \<lparr>content =
                            [Text (''File uploaded successfully: ''
                                   @ JSON_stringify (data result))],
                          isError = None\<rparr>,
               [ReadFile file, UploadFile fileObj])))"

definition upload_file ::
  "sys \<Rightarrow> string \<Rightarrow> string \<Rightarrow> string \<Rightarrow> response \<times> call list" where
  "upload_file s file file_name file_type =
     (case upload_file_try s file file_name file_type of
        (Inl e, calls) \<Rightarrow> (error_response ''File upload failed: '' e, calls)
      | (Inr r, calls) \<Rightarrow> (r, calls))"

section \<open>Server construction and start-up\<close>

text \<open>
  A registered tool is its name with its handler; the three handlers take different
  parameters.
\<close>

datatype handler =
  FilesHandler "file_req list \<Rightarrow> response \<times> call list"
  | UrlsHandler "string list \<Rightarrow> response \<times> call list"
  | FileHandler "string \<Rightarrow> string \<Rightarrow> string \<Rightarrow> response \<times> call list"

record mcp_server =
  server_name :: string
  server_version :: string
  tools :: "(string \<times> handler) list"

text \<open>
  \<^verbatim>\<open>createMCPUploadThing({ token })\<close> of \<^verbatim>\<open>mcp.ts\<close> 0.0.2. \<^verbatim>\<open>!token\<close> holds of an absent
  token (\<open>None\<close>) and of the empty string. \<open>host\<close> gives the collaborators the handlers
  of a server see when the client is \<^verbatim>\<open>new UTApi({ token })\<close>; the handlers close over
  that client and never over the token.
\<close>

definition createMCPUploadThing :: "(string \<Rightarrow> sys) \<Rightarrow> string option \<Rightarrow> thrown + mcp_server" where
  "createMCPUploadThing host token =
     (case token of
        None \<Rightarrow> Inl (JsError ''UploadThing Token is required'')
      | Some t \<Rightarrow>
          if t = [] then Inl (JsError ''UploadThing Token is required'')
          else
            (let utapi = host t
             in Inr \<lparr>server_name = ''mcp-uploadthing'', server_version = ''0.0.2'',
                     tools =
                       [(''upload-files'', FilesHandler (upload_files utapi)),
                        (''upload-files-from-urls'',
                         UrlsHandler (upload_files_from_urls utapi))]\<rparr>))"

text \<open>\<^verbatim>\<open>createMCPUploadThing\<close> of \<^verbatim>\<open>mcp.ts\<close> 0.0.1, which registers \<^verbatim>\<open>upload-file\<close>.\<close>

definition createMCPUploadThing_0_0_1 ::
  "(string \<Rightarrow> sys) \<Rightarrow> string option \<Rightarrow> thrown + mcp_server" where
  "createMCPUploadThing_0_0_1 host token =
     (case token of
        None \<Rightarrow> Inl (JsError ''UploadThing Token is required'')
      | Some t \<Rightarrow>
          if t = [] then Inl (JsError ''UploadThing Token is required'')
          else
            (let utapi = host t
             in Inr \<lparr>server_name = ''mcp-uploadthing'', server_version = ''0.0.1'',
                     tools = [(''upload-file'', FileHandler (upload_file utapi))]\<rparr>))"

text \<open>
  \<^verbatim>\<open>main()\<close> of \<^verbatim>\<open>index.ts\<close>: the token is \<^verbatim>\<open>process.env.UPLOADTHING_TOKEN\<close>; \<open>connect\<close> is
  what \<^verbatim>\<open>mcpServer.connect(transport)\<close> throws, if anything. \<^verbatim>\<open>index.ts\<close> destructures
  \<^verbatim>\<open>{ mcpServer }\<close> from the result, which is what version 0.0.1 returns.
\<close>

definition main :: "(string \<Rightarrow> sys) \<Rightarrow> thrown option \<Rightarrow> string option \<Rightarrow> thrown + unit" where
  "main host connect token =
     (case token of
        None \<Rightarrow> Inl (JsError ''UPLOADTHING_TOKEN is required'')
      | Some t \<Rightarrow>
          if t = [] then Inl (JsError ''UPLOADTHING_TOKEN is required'')
          else
            (case createMCPUploadThing_0_0_1 host (Some t) of
               Inl e \<Rightarrow> Inl e
             | Inr mcpServer \<Rightarrow>
                 (case connect of Some e \<Rightarrow> Inl e | None \<Rightarrow> Inr ())))"

text \<open>
  \<^verbatim>\<open>main().catch((error) => { ...; process.exit(1) })\<close>: the exit code, \<open>None\<close> while the
  server keeps running.
\<close>

definition startup :: "(string \<Rightarrow> sys) \<Rightarrow> thrown option \<Rightarrow> string option \<Rightarrow> nat option" where
  "startup host connect token =
     (case main host connect token of Inl e \<Rightarrow> Some 1 | Inr _ \<Rightarrow> None)"

section \<open>Schema validation in front of a handler\<close>

text \<open>
  The schema \<^verbatim>\<open>z.array(z.string().url())\<close> that \<^verbatim>\<open>mcp.ts\<close> declares for \<^verbatim>\<open>filesByURL\<close>:
  every element has to pass the check of \<^verbatim>\<open>.url()\<close>. That check belongs to the schema
  library, so it is the parameter \<open>valid_url\<close>.
\<close>

definition filesByURL_schema :: "(string \<Rightarrow> bool) \<Rightarrow> string list \<Rightarrow> bool" where
  "filesByURL_schema valid_url filesByURL = list_all valid_url filesByURL"

datatype validation_error = ValidationError

text \<open>
  Modelled from the spec: the dispatch of the tool framework (\<^verbatim>\<open>McpServer.tool\<close> of the
  MCP SDK, which is not among the sources). The spec, section 4.5: each operation
  "validates its input against a declared schema before doing any work, rejecting
  malformed input with a schema-validation error that never reaches the network or
  filesystem layer".
\<close>

definition call_tool ::
  "('p \<Rightarrow> bool) \<Rightarrow> ('p \<Rightarrow> response \<times> call list) \<Rightarrow> 'p \<Rightarrow>
     (validation_error + response) \<times> call list" where
  "call_tool schema handler params =
     (if schema params then (case handler params of (r, calls) \<Rightarrow> (Inr r, calls))
      else (Inl ValidationError, []))"

section \<open>A concrete file system and upload service\<close>

text \<open>
  Two files exist. The service refuses the file named \<^verbatim>\<open>bad.bin\<close> and the URL
  \<^verbatim>\<open>https://example.com/missing\<close> with a per-item error and accepts everything else.
\<close>

definition example_readFile :: "string \<Rightarrow> read_error + buffer" where
  "example_readFile path =
     (if path = ''/tmp/a.txt'' then Inr ''alpha''
      else if path = ''/tmp/c.txt'' then Inr ''gamma''
      else Inl \<lparr>message = ''ENOENT: no such file or directory, open '' @ path,
                jsonText = ''{code:ENOENT}''\<rparr>)"

definition example_result :: "bool \<Rightarrow> string \<Rightarrow> upload_result" where
  "example_result refused item =
     (if refused then \<lparr>data = None, error = Some ''{code:BAD_REQUEST}''\<rparr>
      else \<lparr>data = Some (''{key:'' @ item @ ''}''), error = None\<rparr>)"

definition example_sys :: sys where
  "example_sys =
     \<lparr>readFile = example_readFile,
      uploadFiles = (\<lambda>files. Inr (map (\<lambda>f. example_result (name f = ''bad.bin'') (name f)) files)),
      uploadFile = (\<lambda>f. Inr (example_result (name f = ''bad.bin'') (name f))),
      uploadFilesFromUrl =
        (\<lambda>urls. Inr (map (\<lambda>u. example_result (u = ''https://example.com/missing'') u) urls))\<rparr>"

definition file_a :: file_req where
  "file_a = \<lparr>filePath = ''/tmp/a.txt'', fileName = ''a.txt'', fileType = ''text/plain''\<rparr>"

definition file_missing :: file_req where
  "file_missing =
     \<lparr>filePath = ''/tmp/missing.pdf'', fileName = ''report.pdf'', fileType = ''application/pdf''\<rparr>"

definition file_c :: file_req where
  "file_c = \<lparr>filePath = ''/tmp/c.txt'', fileName = ''c.txt'', fileType = ''text/plain''\<rparr>"

definition file_bad :: file_req where
  "file_bad =
     \<lparr>filePath = ''/tmp/c.txt'', fileName = ''bad.bin'', fileType = ''application/octet-stream''\<rparr>"

text \<open>A stand-in for the URL check of the schema library: a scheme, then something.\<close>

definition example_valid_url :: "string \<Rightarrow> bool" where
  "example_valid_url u =
     ((take 8 u = ''https://'' \<and> 8 < length u) \<or> (take 7 u = ''http://'' \<and> 7 < length u))"

text \<open>The clients of two tokens: the service refuses everything under the second.\<close>

definition example_host :: "string \<Rightarrow> sys" where
  "example_host token =
     (if token = ''sk_live_example'' then example_sys
      else example_sys
        \<lparr>uploadFiles := (\<lambda>files. Inl (JsError ''Invalid token'')),
         uploadFile := (\<lambda>f. Inl (JsError ''Invalid token'')),
         uploadFilesFromUrl := (\<lambda>urls. Inl (JsError ''Invalid token''))\<rparr>)"

text \<open>A path the file system can read during this call.\<close>

definition readable :: "sys \<Rightarrow> file_req \<Rightarrow> bool" where
  "readable s file = (case readFile s (filePath file) of Inl _ \<Rightarrow> False | Inr _ \<Rightarrow> True)"

text \<open>
  The contract of the upload service for the per-item results it returns: one result
  per item, each with either \<^verbatim>\<open>data\<close> or \<^verbatim>\<open>error\<close>.
\<close>

definition either_result :: "upload_result \<Rightarrow> bool" where
  "either_result r = (truthy (data r) \<noteq> truthy (error r))"

section \<open>Properties of the primitives\<close>

lemma map_idx_conv: "map_idx f xs = map (\<lambda>i. f (xs ! i) i) [0..<length xs]"
  by (rule nth_equalityI) (simp_all add: map_idx_def enumerate_eq_zip)

lemma map_idx_map_same:
  "map_idx (\<lambda>x idx. (x, g (ps ! idx))) (map h ps) = map (\<lambda>p. (h p, g p)) ps"
  by (rule nth_equalityI) (simp_all add: map_idx_conv)

lemma map_idx_at:
  assumes "length rs \<le> length xs"
  shows "map_idx (\<lambda>r idx. (f r, at xs idx)) rs = map (\<lambda>(r, x). (f r, Some x)) (zip rs xs)"
  using assms by (intro nth_equalityI) (simp_all add: map_idx_conv at_def)

lemma rejected_materialize: "rejected (materialize s file) = (\<not> readable s file)"
  by (simp add: materialize_def readable_def split: sum.split)

lemma failedFiles_conv:
  "failedFiles ps (map (materialize s) ps) =
     map (\<lambda>file. (materialize s file, filePath file))
       (filter (\<lambda>file. \<not> readable s file) ps)"
  by (simp add: failedFiles_def map_idx_map_same filter_map o_def rejected_materialize)

lemma succesfulFiles_names:
  "map name (succesfulFiles (map (materialize s) ps)) = map fileName (filter (readable s) ps)"
  by (induction ps) (simp_all add: materialize_def readable_def split: sum.split)

lemma succesfulFiles_length:
  "length (succesfulFiles (map (materialize s) ps)) = length (filter (readable s) ps)"
  using succesfulFiles_names [of s ps, THEN arg_cong, of length] by simp

lemma named_entries_Some:
  "named_entries (map (\<lambda>(p, file). (p, Some file)) us) =
     Inr (map (\<lambda>(p, file). name file @ '': '' @ JSON_stringify p) us)"
  by (induction us) (simp_all split: prod.split)

lemma filter_zip_nths:
  assumes "length rs = length xs"
  shows "map snd (filter (\<lambda>(r, x). P r) (zip rs xs)) = nths xs {i. i < length rs \<and> P (rs ! i)}"
  using assms
proof (induction rs xs rule: list_induct2)
  case Nil
  show ?case by simp
next
  case (Cons r rs x xs)
  have shift: "{j. Suc j < Suc (length rs) \<and> P ((r # rs) ! Suc j)} = {i. i < length rs \<and> P (rs ! i)}"
    by simp
  show ?case
    using Cons.IH by (simp add: nths_Cons shift)
qed

lemma nths_agree:
  assumes "\<And>i. i < length xs \<Longrightarrow> (i \<in> A) = (i \<in> B)"
  shows "nths xs A = nths xs B"
proof -
  have "filter (\<lambda>p. snd p \<in> A) (zip xs [0..<length xs]) =
        filter (\<lambda>p. snd p \<in> B) (zip xs [0..<length xs])"
    using assms by (intro filter_cong refl) (auto dest!: set_zip_rightD)
  then show ?thesis
    by (simp add: nths_def)
qed

lemma sublist_join:
  assumes "x \<in> set xs"
  shows "sublist x (join sep xs)"
  using assms
proof (induction sep xs rule: join.induct)
  case (1 sep)
  then show ?case by simp
next
  case (2 sep y)
  then show ?case by simp
next
  case (3 sep y z zs)
  show ?case
  proof (cases "x = y")
    case True
    then show ?thesis by simp
  next
    case False
    with 3 have "sublist x (join sep (z # zs))" by simp
    then obtain ps ss where "join sep (z # zs) = ps @ x @ ss"
      by (auto simp: sublist_def)
    then have "join sep (y # z # zs) = (y @ sep @ ps) @ x @ ss"
      by simp
    then show ?thesis
      unfolding sublist_def by blast
  qed
qed

lemma filter_single:
  assumes "i < length xs" and "P (xs ! i)"
    and "\<And>j. j < length xs \<Longrightarrow> j \<noteq> i \<Longrightarrow> \<not> P (xs ! j)"
  shows "filter P xs = [xs ! i]"
proof -
  have split_at: "xs = take i xs @ xs ! i # drop (Suc i) xs"
    using assms(1) by (rule id_take_nth_drop)
  have before: "filter P (take i xs) = []"
    using assms(1,3) by (auto simp: filter_empty_conv in_set_conv_nth)
  have after: "filter P (drop (Suc i) xs) = []"
    using assms(1,3) by (auto simp: filter_empty_conv in_set_conv_nth)
  have "filter P xs = filter P (take i xs @ xs ! i # drop (Suc i) xs)"
    using split_at by simp
  also have "\<dots> = [xs ! i]"
    using before after assms(2) by simp
  finally show ?thesis .
qed

lemma sublist_in_context:
  assumes "sublist x y"
  shows "sublist x (p @ y @ q)"
proof -
  from assms obtain ps ss where "y = ps @ x @ ss"
    by (auto simp: sublist_def)
  then have "p @ y @ q = (p @ ps) @ x @ (ss @ q)"
    by simp
  then show ?thesis
    unfolding sublist_def by blast
qed

lemma in_set_mapI: "x \<in> set xs \<Longrightarrow> f x \<in> set (map f xs)"
  by simp

lemma text_of_fields [simp]: "text_of \<lparr>content = [Text t], isError = flag\<rparr> = t"
  by (simp add: text_of_def)

lemma text_of_error_response: "text_of (error_response label e) = label @ error_message e"
  by (simp add: error_response_def)

section \<open>The upload stage when the service answers each item\<close>

lemma failedUploads_conv:
  assumes "length rs \<le> length xs"
  shows "failedUploads rs xs =
     map (\<lambda>(r, x). (error r, Some x)) (filter (\<lambda>(r, x). truthy (error r)) (zip rs xs))"
  using assms
  by (simp add: failedUploads_def map_idx_at filter_map o_def case_prod_unfold)

lemma successfulUploads_conv:
  assumes "length rs \<le> length xs"
  shows "successfulUploads rs xs =
     map (\<lambda>(r, x). (data r, Some x)) (filter (\<lambda>(r, x). truthy (data r)) (zip rs xs))"
  using assms
  by (simp add: successfulUploads_def map_idx_at filter_map o_def case_prod_unfold)

lemma named_entries_failed:
  assumes "length rs \<le> length fs"
  shows "named_entries (failedUploads rs fs) =
     Inr (map (\<lambda>(r, f). name f @ '': '' @ JSON_stringify (error r))
            (filter (\<lambda>(r, f). truthy (error r)) (zip rs fs)))"
proof -
  have "named_entries (failedUploads rs fs) =
      named_entries (map (\<lambda>(p, file). (p, Some file))
        (map (\<lambda>(r, f). (error r, f)) (filter (\<lambda>(r, f). truthy (error r)) (zip rs fs))))"
    using assms by (simp add: failedUploads_conv case_prod_unfold o_def)
  then show ?thesis
    by (simp only: named_entries_Some) (simp add: case_prod_unfold o_def)
qed

lemma named_entries_successful:
  assumes "length rs \<le> length fs"
  shows "named_entries (successfulUploads rs fs) =
     Inr (map (\<lambda>(r, f). name f @ '': '' @ JSON_stringify (data r))
            (filter (\<lambda>(r, f). truthy (data r)) (zip rs fs)))"
proof -
  have "named_entries (successfulUploads rs fs) =
      named_entries (map (\<lambda>(p, file). (p, Some file))
        (map (\<lambda>(r, f). (data r, f)) (filter (\<lambda>(r, f). truthy (data r)) (zip rs fs))))"
    using assms by (simp add: successfulUploads_conv case_prod_unfold o_def)
  then show ?thesis
    by (simp only: named_entries_Some) (simp add: case_prod_unfold o_def)
qed

lemma upload_stage_conv:
  assumes "uploadFiles s fs = Inr rs" and "length rs \<le> length fs"
  shows "upload_stage s fs =
     (if filter (\<lambda>(r, f). truthy (error r)) (zip rs fs) \<noteq> [] then
        Inl (JsError
          (newline @ spaces 14 @ ''Successfully uploaded files: ''
           @ join '', '' (map (\<lambda>(r, f). name f @ '': '' @ JSON_stringify (data r))
                 (filter (\<lambda>(r, f). truthy (data r)) (zip rs fs)))
           @ newline @ newline @ newline @ newline
           @ spaces 14 @ ''Failed to upload files: ''
           @ join '', '' (map (\<lambda>(r, f). name f @ '': '' @ JSON_stringify (error r))
                 (filter (\<lambda>(r, f). truthy (error r)) (zip rs fs)))
           @ newline @ spaces 14))
      else
        Inr \<lparr>content =
               [Text (newline @ spaces 16 @ ''Successfully uploaded files: ''
                  @ join '', '' (map (\<lambda>(r, f). name f @ '': '' @ JSON_stringify (data r))
                        (filter (\<lambda>(r, f). truthy (data r)) (zip rs fs)))
                  @ newline @ spaces 16)],
             isError = None\<rparr>,
      [UploadFiles fs])"
proof -
  have none_failed: "(failedUploads rs fs = []) =
      (filter (\<lambda>(r, f). truthy (error r)) (zip rs fs) = [])"
    using assms(2) by (simp add: failedUploads_conv)
  show ?thesis
    by (simp add: upload_stage_def Let_def assms(1) none_failed
        named_entries_failed [OF assms(2)] named_entries_successful [OF assms(2)])
qed

lemma all_readable_files:
  assumes "\<forall>file \<in> set ps. readable s file"
  shows "failedFiles ps (map (materialize s) ps) = []"
    and "map name (succesfulFiles (map (materialize s) ps)) = map fileName ps"
    and "length (succesfulFiles (map (materialize s) ps)) = length ps"
proof -
  from assms have all: "filter (readable s) ps = ps"
    by (simp add: filter_id_conv)
  from assms show "failedFiles ps (map (materialize s) ps) = []"
    by (simp add: failedFiles_conv filter_empty_conv)
  show "map name (succesfulFiles (map (materialize s) ps)) = map fileName ps"
    by (simp add: succesfulFiles_names all)
  show "length (succesfulFiles (map (materialize s) ps)) = length ps"
    by (simp add: succesfulFiles_length all)
qed

lemma upload_files_all_readable:
  assumes "ps \<noteq> []" and "\<forall>file \<in> set ps. readable s file"
  shows "upload_files s ps =
     (case fst (upload_stage s (succesfulFiles (map (materialize s) ps))) of
        Inl e \<Rightarrow> error_response ''Files upload failed: '' e
      | Inr r \<Rightarrow> r,
      map (\<lambda>file. ReadFile (filePath file)) ps
        @ [UploadFiles (succesfulFiles (map (materialize s) ps))])"
proof -
  obtain r where stage:
    "upload_stage s (succesfulFiles (map (materialize s) ps)) =
       (r, [UploadFiles (succesfulFiles (map (materialize s) ps))])"
    by (simp add: upload_stage_def)
  have nonempty: "length (succesfulFiles (map (materialize s) ps)) \<noteq> 0"
    using assms by (simp add: all_readable_files(3))
  show ?thesis
    using nonempty
    by (simp add: upload_files_def upload_files_try_def Let_def stage
        all_readable_files(1) [OF assms(2)] split: sum.split)
qed

section \<open>The \<^verbatim>\<open>upload-files\<close> handler when a read fails\<close>

lemma upload_files_read_failure:
  assumes "\<exists>file \<in> set ps. \<not> readable s file"
  shows "upload_files s ps =
     (error_response ''Files upload failed: ''
        (JsError (''Failed to read files given the following paths: ''
           @ join '', '' (map (\<lambda>file. failed_file_entry (materialize s file, filePath file))
                 (filter (\<lambda>file. \<not> readable s file) ps)))),
      map (\<lambda>file. ReadFile (filePath file)) ps)"
proof -
  from assms have "filter (\<lambda>file. \<not> readable s file) ps \<noteq> []"
    by (simp add: filter_empty_conv)
  then have "length (failedFiles ps (map (materialize s) ps)) > 0"
    by (simp add: failedFiles_conv)
  then show ?thesis
    by (simp add: upload_files_def upload_files_try_def Let_def failedFiles_conv o_def)
qed

text \<open>
  C6. In \<^verbatim>\<open>upload-files\<close>, if at least one file read fails, the upload service is not
  invoked in that call: the only calls made are the reads, so no file of the batch is
  uploaded, the readable ones included. The response is an error response whose text
  lists the unreadable paths, each with its read error, and nothing else.
\<close>

theorem upload_files_read_failure_skips_upload:
  assumes "\<exists>file \<in> set params_files. \<not> readable s file"
  shows "snd (upload_files s params_files) = map (\<lambda>file. ReadFile (filePath file)) params_files
    \<and> isError (fst (upload_files s params_files)) = Some True
    \<and> text_of (fst (upload_files s params_files)) =
        ''Files upload failed: Failed to read files given the following paths: ''
        @ join '', '' (map (\<lambda>file. failed_file_entry (materialize s file, filePath file))
              (filter (\<lambda>file. \<not> readable s file) params_files))"
  using upload_files_read_failure [OF assms] by (simp add: error_response_def)

theorem upload_files_read_failure_skips_upload_witness:
  "(\<exists>file \<in> set [file_a, file_missing, file_c]. \<not> readable example_sys file)
   \<and> snd (upload_files example_sys [file_a, file_missing, file_c]) =
       [ReadFile ''/tmp/a.txt'', ReadFile ''/tmp/missing.pdf'', ReadFile ''/tmp/c.txt'']
   \<and> text_of (fst (upload_files example_sys [file_a, file_missing, file_c])) =
       ''Files upload failed: Failed to read files given the following paths: /tmp/missing.pdf: {code:ENOENT}''"
proof -
  have h: "\<exists>file \<in> set [file_a, file_missing, file_c]. \<not> readable example_sys file"
    by (simp add: readable_def example_sys_def example_readFile_def file_missing_def)
  show ?thesis
    using h upload_files_read_failure_skips_upload [OF h]
    by (simp add: readable_def example_sys_def example_readFile_def file_missing_def
        file_a_def file_c_def materialize_def)
qed

text \<open>
  C1, as the code has it. For a batch in which exactly one path cannot be read (and
  every other path can), \<^verbatim>\<open>upload-files\<close> answers with the error flag set and a text
  that names exactly that one file, by its path and with its read error. The handler
  stops there: its only calls are the reads, no file of the batch is uploaded and the
  response has no list of successes.
\<close>

theorem upload_files_one_missing:
  assumes "i < length params_files"
    and "readFile s (filePath (params_files ! i)) = Inl reason"
    and "\<forall>j < length params_files. j \<noteq> i \<longrightarrow> readable s (params_files ! j)"
  shows "upload_files s params_files =
     (\<lparr>content =
         [Text (''Files upload failed: Failed to read files given the following paths: ''
                @ filePath (params_files ! i) @ '': '' @ jsonText reason)],
       isError = Some True\<rparr>,
      map (\<lambda>file. ReadFile (filePath file)) params_files)"
proof -
  have unreadable: "\<not> readable s (params_files ! i)"
    using assms(2) by (simp add: readable_def)
  have only: "filter (\<lambda>file. \<not> readable s file) params_files = [params_files ! i]"
    using assms(1) unreadable assms(3) by (intro filter_single) auto
  have some: "\<exists>file \<in> set params_files. \<not> readable s file"
    using assms(1) unreadable nth_mem by blast
  show ?thesis
    by (simp add: upload_files_read_failure [OF some] only materialize_def assms(2)
        error_response_def)
qed

theorem upload_files_one_missing_witness:
  "upload_files example_sys [file_a, file_missing, file_c] =
     (\<lparr>content =
         [Text ''Files upload failed: Failed to read files given the following paths: /tmp/missing.pdf: {code:ENOENT}''],
       isError = Some True\<rparr>,
      [ReadFile ''/tmp/a.txt'', ReadFile ''/tmp/missing.pdf'', ReadFile ''/tmp/c.txt''])"
proof -
  have i: "1 < length [file_a, file_missing, file_c]"
    by simp
  have missing: "readFile example_sys (filePath ([file_a, file_missing, file_c] ! 1)) =
      Inl \<lparr>message = ''ENOENT: no such file or directory, open /tmp/missing.pdf'',
           jsonText = ''{code:ENOENT}''\<rparr>"
    by (simp add: example_sys_def example_readFile_def file_missing_def)
  have others: "\<forall>j < length [file_a, file_missing, file_c]. j \<noteq> 1 \<longrightarrow>
      readable example_sys ([file_a, file_missing, file_c] ! j)"
    by (simp add: less_Suc_eq readable_def example_sys_def example_readFile_def
        file_a_def file_c_def numeral_3_eq_3)
  show ?thesis
    using upload_files_one_missing [OF i missing others]
    by (simp add: file_a_def file_missing_def file_c_def)
qed

text \<open>
  C1 as stated fails: in the batch \<open>a.txt\<close>, \<open>report.pdf\<close> (missing), \<open>c.txt\<close> the other
  two files are not uploaded (the trace holds the three reads and no upload), the
  response lists neither of them as a success, and it does not identify the failed
  file by its name.
\<close>

theorem one_missing_file_blocks_the_batch:
  "snd (upload_files example_sys [file_a, file_missing, file_c]) =
       [ReadFile ''/tmp/a.txt'', ReadFile ''/tmp/missing.pdf'', ReadFile ''/tmp/c.txt'']
   \<and> \<not> sublist ''a.txt'' (text_of (fst (upload_files example_sys [file_a, file_missing, file_c])))
   \<and> \<not> sublist ''c.txt'' (text_of (fst (upload_files example_sys [file_a, file_missing, file_c])))
   \<and> \<not> sublist ''report.pdf'' (text_of (fst (upload_files example_sys [file_a, file_missing, file_c])))"
proof -
  have some: "\<exists>file \<in> set [file_a, file_missing, file_c]. \<not> readable example_sys file"
    by (simp add: readable_def example_sys_def example_readFile_def file_missing_def)
  have run: "upload_files example_sys [file_a, file_missing, file_c] =
     (\<lparr>content =
         [Text ''Files upload failed: Failed to read files given the following paths: /tmp/missing.pdf: {code:ENOENT}''],
       isError = Some True\<rparr>,
      [ReadFile ''/tmp/a.txt'', ReadFile ''/tmp/missing.pdf'', ReadFile ''/tmp/c.txt''])"
    by (subst upload_files_read_failure [OF some])
      (simp add: readable_def example_sys_def example_readFile_def file_a_def
        file_missing_def file_c_def materialize_def error_response_def)
  show ?thesis
    unfolding run by code_simp
qed

section \<open>A batch that is read and accepted in full\<close>

text \<open>
  C3. For a non-empty batch whose paths are all readable and whose files the service
  all accepts (one result per file, each with data and no error), \<^verbatim>\<open>upload-files\<close>
  returns a response without the error flag, and its list of successes has one entry
  per input file, in input order: the text lists \<open>fileName: data\<close> for each input in
  turn, and \<open>successfulUploads\<close> has the length of the input and the input's names.
\<close>

theorem upload_files_all_accepted:
  assumes "params_files \<noteq> []"
    and "\<forall>file \<in> set params_files. readable s file"
    and "uploadFiles s (succesfulFiles (map (materialize s) params_files)) = Inr results"
    and "length results = length params_files"
    and "\<forall>r \<in> set results. truthy (data r) \<and> \<not> truthy (error r)"
  shows "isError (fst (upload_files s params_files)) = None
    \<and> \<not> is_error (fst (upload_files s params_files))
    \<and> text_of (fst (upload_files s params_files)) =
        newline @ spaces 16 @ ''Successfully uploaded files: ''
        @ join '', '' (map (\<lambda>(file, r). fileName file @ '': '' @ JSON_stringify (data r))
              (zip params_files results))
        @ newline @ spaces 16
    \<and> length (successfulUploads results (succesfulFiles (map (materialize s) params_files)))
        = length params_files
    \<and> map (\<lambda>(payload, file). map_option name file)
        (successfulUploads results (succesfulFiles (map (materialize s) params_files)))
        = map (\<lambda>file. Some (fileName file)) params_files"
proof -
  let ?fs = "succesfulFiles (map (materialize s) params_files)"
  have names: "map name ?fs = map fileName params_files"
    and len: "length ?fs = length params_files"
    using assms(2) by (rule all_readable_files(2), rule all_readable_files(3))
  have le: "length results \<le> length ?fs"
    using assms(4) len by simp
  have in_zip: "\<And>r f. (r, f) \<in> set (zip results ?fs) \<Longrightarrow> truthy (data r) \<and> \<not> truthy (error r)"
    using assms(5) by (auto dest: set_zip_leftD)
  have no_fail: "filter (\<lambda>(r, f). truthy (error r)) (zip results ?fs) = []"
    using in_zip by (auto simp: filter_empty_conv)
  have all_ok: "filter (\<lambda>(r, f). truthy (data r)) (zip results ?fs) = zip results ?fs"
    using in_zip by (auto simp: filter_id_conv)
  have entries: "map (\<lambda>(r, f). name f @ '': '' @ JSON_stringify (data r)) (zip results ?fs) =
      map (\<lambda>(file, r). fileName file @ '': '' @ JSON_stringify (data r)) (zip params_files results)"
  proof (rule nth_equalityI)
    show "length (map (\<lambda>(r, f). name f @ '': '' @ JSON_stringify (data r)) (zip results ?fs)) =
      length (map (\<lambda>(file, r). fileName file @ '': '' @ JSON_stringify (data r)) (zip params_files results))"
      using len assms(4) by simp
  next
    fix i
    assume "i < length (map (\<lambda>(r, f). name f @ '': '' @ JSON_stringify (data r)) (zip results ?fs))"
    then have i: "i < length params_files"
      using len assms(4) by simp
    have "name (?fs ! i) = map name ?fs ! i"
      using i len by simp
    also have "\<dots> = fileName (params_files ! i)"
      using i by (simp add: names)
    finally show "map (\<lambda>(r, f). name f @ '': '' @ JSON_stringify (data r)) (zip results ?fs) ! i =
        map (\<lambda>(file, r). fileName file @ '': '' @ JSON_stringify (data r)) (zip params_files results) ! i"
      using i len assms(4) by simp
  qed
  have stage: "fst (upload_stage s ?fs) =
      Inr \<lparr>content =
             [Text (newline @ spaces 16 @ ''Successfully uploaded files: ''
                @ join '', '' (map (\<lambda>(file, r). fileName file @ '': '' @ JSON_stringify (data r))
                      (zip params_files results))
                @ newline @ spaces 16)],
           isError = None\<rparr>"
    unfolding upload_stage_conv [OF assms(3) le] no_fail all_ok entries by simp
  have resp: "fst (upload_files s params_files) =
      \<lparr>content =
             [Text (newline @ spaces 16 @ ''Successfully uploaded files: ''
                @ join '', '' (map (\<lambda>(file, r). fileName file @ '': '' @ JSON_stringify (data r))
                      (zip params_files results))
                @ newline @ spaces 16)],
           isError = None\<rparr>"
    by (simp add: upload_files_all_readable [OF assms(1,2)] stage)
  have ok_list: "successfulUploads results ?fs = map (\<lambda>(r, x). (data r, Some x)) (zip results ?fs)"
    by (simp add: successfulUploads_conv [OF le] all_ok)
  have ok_len: "length (successfulUploads results ?fs) = length params_files"
    using len assms(4) by (simp add: ok_list)
  have ok_names: "map (\<lambda>(payload, file). map_option name file) (successfulUploads results ?fs)
      = map (\<lambda>file. Some (fileName file)) params_files"
  proof -
    have "map (\<lambda>(payload, file). map_option name file) (successfulUploads results ?fs)
        = map (\<lambda>f. Some (name f)) (map snd (zip results ?fs))"
      by (simp add: ok_list case_prod_unfold o_def)
    also have "map snd (zip results ?fs) = ?fs"
      using len assms(4) by (simp add: map_snd_zip)
    also have "map (\<lambda>f. Some (name f)) ?fs = map Some (map name ?fs)"
      by (simp add: o_def)
    finally show ?thesis
      by (simp add: names o_def)
  qed
  show ?thesis
    using ok_len ok_names by (simp add: resp is_error_def)
qed

theorem upload_files_all_accepted_witness:
  "isError (fst (upload_files example_sys [file_a, file_c])) = None
   \<and> text_of (fst (upload_files example_sys [file_a, file_c])) =
       newline @ spaces 16
       @ ''Successfully uploaded files: a.txt: {key:a.txt}, c.txt: {key:c.txt}''
       @ newline @ spaces 16"
proof -
  let ?results = "[example_result False ''a.txt'', example_result False ''c.txt'']"
  have nonempty: "[file_a, file_c] \<noteq> []"
    by simp
  have readable: "\<forall>file \<in> set [file_a, file_c]. readable example_sys file"
    by (simp add: readable_def example_sys_def example_readFile_def file_a_def file_c_def)
  have answer: "uploadFiles example_sys (succesfulFiles (map (materialize example_sys) [file_a, file_c]))
      = Inr ?results"
    by (simp add: example_sys_def example_readFile_def materialize_def file_a_def file_c_def)
  have len: "length ?results = length [file_a, file_c]"
    by simp
  have accepted: "\<forall>r \<in> set ?results. truthy (data r) \<and> \<not> truthy (error r)"
    by (simp add: example_result_def)
  show ?thesis
    using upload_files_all_accepted [OF nonempty readable answer len accepted]
    by (simp add: example_result_def file_a_def file_c_def)
qed

section \<open>When the error flag is set\<close>

lemma upload_files_Nil: "is_error (fst (upload_files s []))"
  by (simp add: upload_files_def upload_files_try_def failedFiles_def map_idx_def
      error_response_def is_error_def)

lemma is_error_error_response: "is_error (error_response label e)"
  by (simp add: is_error_def error_response_def)

lemma is_error_fields: "is_error \<lparr>content = c, isError = flag\<rparr> = (flag = Some True)"
  by (simp add: is_error_def)

lemma upload_files_is_error:
  assumes "\<forall>results. uploadFiles s (succesfulFiles (map (materialize s) ps)) = Inr results
      \<longrightarrow> length results = length (succesfulFiles (map (materialize s) ps))"
  shows "is_error (fst (upload_files s ps)) =
     ((\<exists>file \<in> set ps. \<not> readable s file) \<or> ps = []
      \<or> (case uploadFiles s (succesfulFiles (map (materialize s) ps)) of
           Inl e \<Rightarrow> True
         | Inr results \<Rightarrow> \<exists>r \<in> set results. truthy (error r)))"
proof (cases "\<exists>file \<in> set ps. \<not> readable s file")
  case True
  then show ?thesis
    by (simp add: upload_files_read_failure is_error_error_response)
next
  case all: False
  show ?thesis
  proof (cases "ps = []")
    case True
    then show ?thesis
      by (simp add: upload_files_Nil)
  next
    case nonempty: False
    let ?fs = "succesfulFiles (map (materialize s) ps)"
    have readable: "\<forall>file \<in> set ps. readable s file"
      using all by simp
    show ?thesis
    proof (cases "uploadFiles s ?fs")
      case (Inl e)
      then have "fst (upload_stage s ?fs) = Inl e"
        by (simp add: upload_stage_def)
      then show ?thesis
        using all nonempty Inl
        by (simp add: upload_files_all_readable [OF nonempty readable] is_error_error_response)
    next
      case (Inr results)
      with assms have eq: "length results = length ?fs"
        by simp
      then have le: "length results \<le> length ?fs"
        by simp
      have failed: "(filter (\<lambda>(r, f). truthy (error r)) (zip results ?fs) \<noteq> []) =
          (\<exists>r \<in> set results. truthy (error r))"
      proof -
        have "(filter (\<lambda>(r, f). truthy (error r)) (zip results ?fs) \<noteq> []) =
            (\<exists>r \<in> set (map fst (zip results ?fs)). truthy (error r))"
          by (force simp: filter_empty_conv)
        also have "map fst (zip results ?fs) = results"
          using eq by simp
        finally show ?thesis .
      qed
      show ?thesis
        using all nonempty Inr failed
        by (simp add: upload_files_all_readable [OF nonempty readable]
            upload_stage_conv [OF Inr le] is_error_error_response is_error_fields)
    qed
  qed
qed

lemma upload_files_from_urls_is_error:
  "is_error (fst (upload_files_from_urls s urls)) =
     (case uploadFilesFromUrl s urls of
        Inl e \<Rightarrow> True
      | Inr results \<Rightarrow> \<exists>r \<in> set results. truthy (error r))"
proof (cases "uploadFilesFromUrl s urls")
  case (Inl e)
  then show ?thesis
    by (simp add: upload_files_from_urls_def upload_files_from_urls_try_def
        is_error_error_response)
next
  case (Inr results)
  have "(failedUploads results urls = []) = (\<forall>r \<in> set results. \<not> truthy (error r))"
    by (auto simp: failedUploads_def map_idx_conv filter_empty_conv all_set_conv_all_nth)
  then show ?thesis
    using Inr
    by (simp add: upload_files_from_urls_def upload_files_from_urls_try_def Let_def
        is_error_error_response is_error_fields)
qed

lemma upload_file_is_error:
  "is_error (fst (upload_file s file file_name file_type)) =
     (case readFile s file of
        Inl reason \<Rightarrow> True
      | Inr buffer \<Rightarrow>
          (case uploadFile s \<lparr>bytes = buffer, name = file_name, type = file_type\<rparr> of
             Inl e \<Rightarrow> True
           | Inr result \<Rightarrow> truthy (error result)))"
  by (simp add: upload_file_def upload_file_try_def Let_def is_error_error_response
      is_error_fields split: sum.split)

text \<open>
  C4, as the code has it. The error flag of a response is set exactly when an item of
  the call failed or the call failed as a whole. For \<^verbatim>\<open>upload-files\<close> (the service
  answering with one result per file it is given, that is per file that was read, when
  it answers): a read failed, or the batch is empty, or the service call threw, or a
  result carries an error. For
  \<^verbatim>\<open>upload-files-from-urls\<close>: the service call threw or a result carries an error. For
  \<^verbatim>\<open>upload-file\<close>: the read failed, the service call threw or the result carries an
  error.
\<close>

theorem isError_iff_failed:
  assumes "\<forall>results.
      uploadFiles s (succesfulFiles (map (materialize s) params_files)) = Inr results
      \<longrightarrow> length results = length (succesfulFiles (map (materialize s) params_files))"
  shows "is_error (fst (upload_files s params_files)) =
       ((\<exists>file \<in> set params_files. \<not> readable s file) \<or> params_files = []
        \<or> (case uploadFiles s (succesfulFiles (map (materialize s) params_files)) of
             Inl e \<Rightarrow> True
           | Inr results \<Rightarrow> \<exists>r \<in> set results. truthy (error r)))
    \<and> is_error (fst (upload_files_from_urls s urls)) =
       (case uploadFilesFromUrl s urls of
          Inl e \<Rightarrow> True
        | Inr results \<Rightarrow> \<exists>r \<in> set results. truthy (error r))
    \<and> is_error (fst (upload_file s file file_name file_type)) =
       (case readFile s file of
          Inl reason \<Rightarrow> True
        | Inr buffer \<Rightarrow>
            (case uploadFile s \<lparr>bytes = buffer, name = file_name, type = file_type\<rparr> of
               Inl e \<Rightarrow> True
             | Inr result \<Rightarrow> truthy (error result)))"
  by (simp only: upload_files_is_error [OF assms] upload_files_from_urls_is_error
      upload_file_is_error)

theorem isError_iff_failed_witness:
  "is_error (fst (upload_files example_sys [file_a, file_missing]))
   \<and> is_error (fst (upload_files example_sys [file_a, file_bad]))
   \<and> \<not> is_error (fst (upload_files example_sys [file_a, file_c]))
   \<and> \<not> is_error (fst (upload_files_from_urls example_sys [''https://example.com/a.png'']))
   \<and> is_error (fst (upload_file example_sys ''/tmp/missing.pdf'' ''report.pdf'' ''application/pdf''))"
proof -
  have contract: "\<forall>results.
      uploadFiles example_sys (succesfulFiles (map (materialize example_sys) batch)) = Inr results
      \<longrightarrow> length results = length (succesfulFiles (map (materialize example_sys) batch))"
    for batch
    by (auto simp: example_sys_def)
  have read_fails: "is_error (fst (upload_files example_sys [file_a, file_missing]))"
    using isError_iff_failed [OF contract [of "[file_a, file_missing]"]]
    by (simp add: example_sys_def example_readFile_def readable_def file_missing_def)
  have upload_fails: "is_error (fst (upload_files example_sys [file_a, file_bad]))"
    using isError_iff_failed [OF contract [of "[file_a, file_bad]"]]
    by (simp add: example_sys_def example_readFile_def example_result_def materialize_def
        readable_def file_a_def file_bad_def)
  have all_fine: "\<not> is_error (fst (upload_files example_sys [file_a, file_c]))
      \<and> \<not> is_error (fst (upload_files_from_urls example_sys [''https://example.com/a.png'']))
      \<and> is_error (fst (upload_file example_sys ''/tmp/missing.pdf'' ''report.pdf''
            ''application/pdf''))"
    using isError_iff_failed [OF contract [of "[file_a, file_c]"],
        of "[''https://example.com/a.png'']"
        "''/tmp/missing.pdf''" "''report.pdf''" "''application/pdf''"]
    by (simp add: example_sys_def example_readFile_def example_result_def materialize_def
        readable_def file_a_def file_c_def)
  show ?thesis
    using read_fails upload_fails all_fine by simp
qed

text \<open>
  C4 as stated fails: for the empty batch \<^verbatim>\<open>upload-files\<close> sets the error flag although
  no item failed: no read failed and the upload service was not called.
\<close>

theorem isError_without_failed_item:
  "is_error (fst (upload_files example_sys []))
   \<and> failedFiles [] (map (materialize example_sys) []) = []
   \<and> snd (upload_files example_sys []) = []"
  by (simp add: upload_files_def upload_files_try_def failedFiles_def map_idx_def
      error_response_def is_error_def)

section \<open>Every failed item is named in the text\<close>

lemma read_failure_named:
  assumes "i < length ps" and "readFile s (filePath (ps ! i)) = Inl reason"
  shows "is_error (fst (upload_files s ps))
    \<and> sublist (filePath (ps ! i) @ '': '' @ jsonText reason) (text_of (fst (upload_files s ps)))"
proof -
  let ?entry = "\<lambda>file. failed_file_entry (materialize s file, filePath file)"
  let ?failed = "filter (\<lambda>file. \<not> readable s file) ps"
  have unreadable: "\<not> readable s (ps ! i)"
    using assms(2) by (simp add: readable_def)
  then have some: "\<exists>file \<in> set ps. \<not> readable s file"
    using assms(1) nth_mem by blast
  have "ps ! i \<in> set ?failed"
    using assms(1) unreadable by simp
  then have "?entry (ps ! i) \<in> set (map ?entry ?failed)"
    by (rule in_set_mapI [where f = ?entry])
  moreover have "?entry (ps ! i) = filePath (ps ! i) @ '': '' @ jsonText reason"
    by (simp add: materialize_def assms(2))
  ultimately have "sublist (filePath (ps ! i) @ '': '' @ jsonText reason)
      (join '', '' (map ?entry ?failed))"
    by (simp add: sublist_join)
  then have "sublist (filePath (ps ! i) @ '': '' @ jsonText reason)
      ((''Files upload failed: '' @ ''Failed to read files given the following paths: '')
       @ join '', '' (map ?entry ?failed) @ [])"
    by (rule sublist_in_context)
  moreover have "text_of (fst (upload_files s ps)) =
      (''Files upload failed: '' @ ''Failed to read files given the following paths: '')
       @ join '', '' (map ?entry ?failed) @ []"
    by (simp add: upload_files_read_failure [OF some] text_of_error_response)
  ultimately show ?thesis
    by (simp add: upload_files_read_failure [OF some] is_error_error_response)
qed

lemma upload_failure_named:
  assumes "\<forall>file \<in> set ps. readable s file"
    and "uploadFiles s (succesfulFiles (map (materialize s) ps)) = Inr results"
    and "length results = length ps"
    and "i < length ps" and "error (results ! i) = Some detail"
  shows "is_error (fst (upload_files s ps))
    \<and> sublist (fileName (ps ! i) @ '': '' @ detail) (text_of (fst (upload_files s ps)))"
proof -
  let ?fs = "succesfulFiles (map (materialize s) ps)"
  let ?entry = "\<lambda>(r, f). name f @ '': '' @ JSON_stringify (error r)"
  let ?failed = "filter (\<lambda>(r, f). truthy (error r)) (zip results ?fs)"
  let ?ok = "map (\<lambda>(r, f). name f @ '': '' @ JSON_stringify (data r))
      (filter (\<lambda>(r, f). truthy (data r)) (zip results ?fs))"
  have nonempty: "ps \<noteq> []"
    using assms(4) by auto
  have len: "length ?fs = length ps"
    using assms(1) by (rule all_readable_files(3))
  have le: "length results \<le> length ?fs"
    using len assms(3) by simp
  have "name (?fs ! i) = map name ?fs ! i"
    using assms(4) len by simp
  also have "\<dots> = fileName (ps ! i)"
    using assms(4) by (simp add: all_readable_files(2) [OF assms(1)])
  finally have name_i: "name (?fs ! i) = fileName (ps ! i)" .
  have "zip results ?fs ! i \<in> set (zip results ?fs)"
    using assms(3,4) len by (intro nth_mem) simp
  then have "(results ! i, ?fs ! i) \<in> set (zip results ?fs)"
    using assms(3,4) len by simp
  then have member: "(results ! i, ?fs ! i) \<in> set ?failed"
    using assms(5) by simp
  then have "?entry (results ! i, ?fs ! i) \<in> set (map ?entry ?failed)"
    by (rule in_set_mapI [where f = ?entry])
  moreover have "?entry (results ! i, ?fs ! i) = fileName (ps ! i) @ '': '' @ detail"
    by (simp add: name_i assms(5))
  ultimately have "sublist (fileName (ps ! i) @ '': '' @ detail) (join '', '' (map ?entry ?failed))"
    by (simp add: sublist_join)
  then have inside: "sublist (fileName (ps ! i) @ '': '' @ detail)
      ((''Files upload failed: '' @ newline @ spaces 14 @ ''Successfully uploaded files: ''
         @ join '', '' ?ok @ newline @ newline @ newline @ newline
         @ spaces 14 @ ''Failed to upload files: '')
       @ join '', '' (map ?entry ?failed) @ (newline @ spaces 14))"
    by (rule sublist_in_context)
  have failed: "?failed \<noteq> []"
    using member by (cases ?failed) simp_all
  have resp: "fst (upload_files s ps) =
      error_response ''Files upload failed: ''
        (JsError (newline @ spaces 14 @ ''Successfully uploaded files: ''
           @ join '', '' ?ok @ newline @ newline @ newline @ newline
           @ spaces 14 @ ''Failed to upload files: ''
           @ join '', '' (map ?entry ?failed) @ newline @ spaces 14))"
    using failed
    by (simp add: upload_files_all_readable [OF nonempty assms(1)]
        upload_stage_conv [OF assms(2) le])
  have "text_of (fst (upload_files s ps)) =
      (''Files upload failed: '' @ newline @ spaces 14 @ ''Successfully uploaded files: ''
         @ join '', '' ?ok @ newline @ newline @ newline @ newline
         @ spaces 14 @ ''Failed to upload files: '')
       @ join '', '' (map ?entry ?failed) @ (newline @ spaces 14)"
    unfolding resp text_of_error_response by simp
  with inside show ?thesis
    by (simp add: resp is_error_error_response)
qed

lemma url_failure_named:
  assumes "uploadFilesFromUrl s urls = Inr results"
    and "i < length results" and "i < length urls" and "error (results ! i) = Some detail"
  shows "is_error (fst (upload_files_from_urls s urls))
    \<and> sublist (urls ! i @ '': '' @ detail) (text_of (fst (upload_files_from_urls s urls)))"
proof -
  let ?failed = "failedUploads results urls"
  let ?ok = "successfulUploads results urls"
  have "(error (results ! i), at urls i) \<in> set (map_idx (\<lambda>result idx. (error result, at urls idx)) results)"
    unfolding map_idx_conv
    using assms(2) in_set_mapI [of i "[0..<length results]" "\<lambda>i. (error (results ! i), at urls i)"]
    by simp
  then have member: "(Some detail, Some (urls ! i)) \<in> set ?failed"
    using assms(3,4) by (simp add: failedUploads_def at_def)
  then have "url_entry (Some detail, Some (urls ! i)) \<in> set (map url_entry ?failed)"
    by (rule in_set_mapI [where f = url_entry])
  then have "sublist (urls ! i @ '': '' @ detail) (join '', '' (map url_entry ?failed))"
    by (simp add: sublist_join)
  then have inside: "sublist (urls ! i @ '': '' @ detail)
      ((''Files by URL upload failed: '' @ newline @ spaces 14
         @ ''Successfully uploaded files by URL: ''
         @ join '', '' (map url_entry ?ok) @ newline @ newline @ newline @ newline
         @ spaces 14 @ ''Failed to upload files by URL: '')
       @ join '', '' (map url_entry ?failed) @ (newline @ spaces 14))"
    by (rule sublist_in_context)
  have failed: "0 < length ?failed"
    using member by (cases ?failed) auto
  have resp: "fst (upload_files_from_urls s urls) =
      error_response ''Files by URL upload failed: ''
        (JsError (newline @ spaces 14 @ ''Successfully uploaded files by URL: ''
           @ join '', '' (map url_entry ?ok) @ newline @ newline @ newline @ newline
           @ spaces 14 @ ''Failed to upload files by URL: ''
           @ join '', '' (map url_entry ?failed) @ newline @ spaces 14))"
    using failed
    by (simp add: upload_files_from_urls_def upload_files_from_urls_try_def assms(1) Let_def)
  have "text_of (fst (upload_files_from_urls s urls)) =
      (''Files by URL upload failed: '' @ newline @ spaces 14
         @ ''Successfully uploaded files by URL: ''
         @ join '', '' (map url_entry ?ok) @ newline @ newline @ newline @ newline
         @ spaces 14 @ ''Failed to upload files by URL: '')
       @ join '', '' (map url_entry ?failed) @ (newline @ spaces 14)"
    unfolding resp text_of_error_response by simp
  with inside show ?thesis
    by (simp add: resp is_error_error_response)
qed

text \<open>
  C8. Whenever an item of a batch call fails, the response is an error response and its
  text names that item together with its error detail: for \<^verbatim>\<open>upload-files\<close> a file
  that could not be read appears as \<open>path: read error\<close>, and, when all files were read
  and the service answered with one result per file, a file whose result carries an
  error appears as \<open>name: error\<close>; for \<^verbatim>\<open>upload-files-from-urls\<close> a URL whose result
  carries an error appears as \<open>url: error\<close>. This holds for every failed item, so none
  is left out of the text.
\<close>

theorem every_failure_is_named:
  "(i < length params_files \<and> readFile s (filePath (params_files ! i)) = Inl reason \<longrightarrow>
      is_error (fst (upload_files s params_files))
      \<and> sublist (filePath (params_files ! i) @ '': '' @ jsonText reason)
          (text_of (fst (upload_files s params_files))))
   \<and> ((\<forall>file \<in> set params_files'. readable s' file)
       \<and> uploadFiles s' (succesfulFiles (map (materialize s') params_files')) = Inr results
       \<and> length results = length params_files'
       \<and> j < length params_files' \<and> error (results ! j) = Some detail \<longrightarrow>
      is_error (fst (upload_files s' params_files'))
      \<and> sublist (fileName (params_files' ! j) @ '': '' @ detail)
          (text_of (fst (upload_files s' params_files'))))
   \<and> (uploadFilesFromUrl s'' urls = Inr results'
       \<and> k < length results' \<and> k < length urls \<and> error (results' ! k) = Some detail' \<longrightarrow>
      is_error (fst (upload_files_from_urls s'' urls))
      \<and> sublist (urls ! k @ '': '' @ detail')
          (text_of (fst (upload_files_from_urls s'' urls))))"
  using read_failure_named [of i params_files s reason]
    upload_failure_named [of params_files' s' results j detail]
    url_failure_named [of s'' urls results' k detail']
  by blast

theorem every_failure_is_named_witness:
  "sublist ''/tmp/missing.pdf: {code:ENOENT}''
     (text_of (fst (upload_files example_sys [file_a, file_missing])))
   \<and> sublist ''bad.bin: {code:BAD_REQUEST}''
     (text_of (fst (upload_files example_sys [file_a, file_bad])))
   \<and> sublist ''https://example.com/missing: {code:BAD_REQUEST}''
     (text_of (fst (upload_files_from_urls example_sys
        [''https://example.com/a.png'', ''https://example.com/missing''])))"
proof -
  let ?reason = "\<lparr>message = ''ENOENT: no such file or directory, open /tmp/missing.pdf'',
      jsonText = ''{code:ENOENT}''\<rparr>"
  let ?results = "[example_result False ''a.txt'', example_result True ''bad.bin'']"
  let ?urls = "[''https://example.com/a.png'', ''https://example.com/missing'']"
  let ?results' = "[example_result False ''https://example.com/a.png'',
      example_result True ''https://example.com/missing'']"
  have a: "1 < length [file_a, file_missing]
      \<and> readFile example_sys (filePath ([file_a, file_missing] ! 1)) = Inl ?reason"
    by (simp add: example_sys_def example_readFile_def file_missing_def)
  have b: "(\<forall>file \<in> set [file_a, file_bad]. readable example_sys file)
      \<and> uploadFiles example_sys (succesfulFiles (map (materialize example_sys) [file_a, file_bad]))
          = Inr ?results
      \<and> length ?results = length [file_a, file_bad]
      \<and> 1 < length [file_a, file_bad] \<and> error (?results ! 1) = Some ''{code:BAD_REQUEST}''"
    by (simp add: example_sys_def example_readFile_def example_result_def readable_def
        materialize_def file_a_def file_bad_def)
  have c: "uploadFilesFromUrl example_sys ?urls = Inr ?results'
      \<and> 1 < length ?results' \<and> 1 < length ?urls
      \<and> error (?results' ! 1) = Some ''{code:BAD_REQUEST}''"
    by (simp add: example_sys_def example_result_def)
  have names: "filePath ([file_a, file_missing] ! 1) @ '': '' @ jsonText ?reason
        = ''/tmp/missing.pdf: {code:ENOENT}''"
    "fileName ([file_a, file_bad] ! 1) @ '': '' @ ''{code:BAD_REQUEST}''
        = ''bad.bin: {code:BAD_REQUEST}''"
    "?urls ! 1 @ '': '' @ ''{code:BAD_REQUEST}''
        = ''https://example.com/missing: {code:BAD_REQUEST}''"
    by (simp_all add: file_missing_def file_bad_def)
  show ?thesis
    using every_failure_is_named [of 1 "[file_a, file_missing]" example_sys ?reason
        "[file_a, file_bad]" example_sys ?results 1 "''{code:BAD_REQUEST}''"
        example_sys ?urls ?results' 1 "''{code:BAD_REQUEST}''"] a b c
    unfolding names by blast
qed

section \<open>The two lists partition the batch\<close>

lemma partition_by_index:
  assumes "length results = length items" and "\<forall>r \<in> set results. either_result r"
  shows "\<exists>A. map snd (successfulUploads results items) = map Some (nths items A)
    \<and> map snd (failedUploads results items) = map Some (nths items (- A))"
proof -
  let ?A = "{i. i < length results \<and> truthy (data (results ! i))}"
  let ?B = "{i. i < length results \<and> truthy (error (results ! i))}"
  have le: "length results \<le> length items"
    using assms(1) by simp
  have "map snd (successfulUploads results items) =
      map Some (map snd (filter (\<lambda>(r, x). truthy (data r)) (zip results items)))"
    by (simp add: successfulUploads_conv [OF le] case_prod_unfold o_def)
  then have ok: "map snd (successfulUploads results items) = map Some (nths items ?A)"
    by (simp only: filter_zip_nths [OF assms(1)])
  have "map snd (failedUploads results items) =
      map Some (map snd (filter (\<lambda>(r, x). truthy (error r)) (zip results items)))"
    by (simp add: failedUploads_conv [OF le] case_prod_unfold o_def)
  then have failed: "map snd (failedUploads results items) = map Some (nths items ?B)"
    by (simp only: filter_zip_nths [OF assms(1)])
  have "nths items ?B = nths items (- ?A)"
  proof (rule nths_agree)
    fix i
    assume "i < length items"
    then have "results ! i \<in> set results"
      using assms(1) by simp
    then have "truthy (data (results ! i)) \<noteq> truthy (error (results ! i))"
      using assms(2) by (simp add: either_result_def)
    then show "(i \<in> ?B) = (i \<in> - ?A)"
      using \<open>i < length items\<close> assms(1) by auto
  qed
  with ok failed show ?thesis
    by metis
qed

text \<open>
  C2, as the code has it. Whenever the upload service answers with one result per item,
  each carrying either data or an error, the two lists the handler builds partition the
  items: there is a set \<open>A\<close> of positions such that the successes are the items at the
  positions in \<open>A\<close> and the failures the items at the other positions, both in input
  order. This holds for the URLs of \<^verbatim>\<open>upload-files-from-urls\<close> and, when every file of
  the batch was read, for the files of \<^verbatim>\<open>upload-files\<close> (by their names). The read
  failures of \<^verbatim>\<open>upload-files\<close> are the unreadable files of the batch, in input order.
\<close>

theorem batch_results_partition_inputs:
  assumes "length results = length urls"
    and "\<forall>r \<in> set results. either_result r"
    and "\<forall>file \<in> set params_files. readable s file"
    and "length results' = length params_files"
    and "\<forall>r \<in> set results'. either_result r"
  shows "(\<exists>A. map snd (successfulUploads results urls) = map Some (nths urls A)
          \<and> map snd (failedUploads results urls) = map Some (nths urls (- A)))
    \<and> (\<exists>A. map (\<lambda>(payload, f). map_option name f)
              (successfulUploads results' (succesfulFiles (map (materialize s) params_files)))
            = map Some (nths (map fileName params_files) A)
          \<and> map (\<lambda>(payload, f). map_option name f)
              (failedUploads results' (succesfulFiles (map (materialize s) params_files)))
            = map Some (nths (map fileName params_files) (- A)))
    \<and> map snd (failedFiles batch (map (materialize s) batch))
        = map filePath (filter (\<lambda>file. \<not> readable s file) batch)"
proof (intro conjI)
  show "\<exists>A. map snd (successfulUploads results urls) = map Some (nths urls A)
      \<and> map snd (failedUploads results urls) = map Some (nths urls (- A))"
    using assms(1,2) by (rule partition_by_index)
next
  let ?fs = "succesfulFiles (map (materialize s) params_files)"
  have names: "map name ?fs = map fileName params_files"
    using assms(3) by (rule all_readable_files(2))
  have len: "length results' = length ?fs"
    using assms(4) all_readable_files(3) [OF assms(3)] by simp
  from partition_by_index [OF len assms(5)] obtain A where
    ok: "map snd (successfulUploads results' ?fs) = map Some (nths ?fs A)" and
    failed: "map snd (failedUploads results' ?fs) = map Some (nths ?fs (- A))"
    by blast
  have by_name: "map (\<lambda>(payload, f). map_option name f) us = map (map_option name) (map snd us)"
    for us :: "(json option \<times> file_obj option) list"
    by (simp add: case_prod_unfold o_def)
  have named: "map (map_option name) (map Some (nths ?fs B)) =
      map Some (nths (map fileName params_files) B)" for B
    by (simp add: o_def flip: names nths_map)
  have "map (\<lambda>(payload, f). map_option name f) (successfulUploads results' ?fs)
        = map Some (nths (map fileName params_files) A)
      \<and> map (\<lambda>(payload, f). map_option name f) (failedUploads results' ?fs)
        = map Some (nths (map fileName params_files) (- A))"
    unfolding by_name ok failed named by simp
  then show "\<exists>A. map (\<lambda>(payload, f). map_option name f) (successfulUploads results' ?fs)
        = map Some (nths (map fileName params_files) A)
      \<and> map (\<lambda>(payload, f). map_option name f) (failedUploads results' ?fs)
        = map Some (nths (map fileName params_files) (- A))"
    by (rule exI)
next
  show "map snd (failedFiles batch (map (materialize s) batch))
      = map filePath (filter (\<lambda>file. \<not> readable s file) batch)"
    by (simp add: failedFiles_conv o_def)
qed

theorem batch_results_partition_inputs_witness:
  "(\<exists>A. map snd (successfulUploads
            [example_result False ''https://example.com/a.png'',
             example_result True ''https://example.com/missing'']
            [''https://example.com/a.png'', ''https://example.com/missing''])
          = map Some (nths [''https://example.com/a.png'', ''https://example.com/missing''] A)
        \<and> map snd (failedUploads
            [example_result False ''https://example.com/a.png'',
             example_result True ''https://example.com/missing'']
            [''https://example.com/a.png'', ''https://example.com/missing''])
          = map Some (nths [''https://example.com/a.png'', ''https://example.com/missing''] (- A)))
   \<and> map snd (failedFiles [file_a, file_missing]
         (map (materialize example_sys) [file_a, file_missing])) = [''/tmp/missing.pdf'']"
proof -
  let ?results = "[example_result False ''https://example.com/a.png'',
      example_result True ''https://example.com/missing'']"
  let ?urls = "[''https://example.com/a.png'', ''https://example.com/missing'']"
  let ?results' = "[example_result False ''a.txt'', example_result True ''bad.bin'']"
  have h1: "length ?results = length ?urls"
    by simp
  have h2: "\<forall>r \<in> set ?results. either_result r"
    by (simp add: either_result_def example_result_def)
  have h3: "\<forall>file \<in> set [file_a, file_bad]. readable example_sys file"
    by (simp add: readable_def example_sys_def example_readFile_def file_a_def file_bad_def)
  have h4: "length ?results' = length [file_a, file_bad]"
    by simp
  have h5: "\<forall>r \<in> set ?results'. either_result r"
    by (simp add: either_result_def example_result_def)
  have unreadable: "filter (\<lambda>file. \<not> readable example_sys file) [file_a, file_missing]
      = [file_missing]"
    by (simp add: readable_def example_sys_def example_readFile_def file_a_def file_missing_def)
  show ?thesis
    using batch_results_partition_inputs [OF h1 h2 h3 h4 h5, of "[file_a, file_missing]"]
    unfolding unreadable by (simp add: file_missing_def)
qed

text \<open>
  C2 as stated fails for \<^verbatim>\<open>upload-files\<close>: in the batch \<open>a.txt\<close>, \<open>report.pdf\<close> (missing)
  the list of failures holds the missing file only, the handler makes no upload call,
  and the readable file \<open>a.txt\<close> appears in neither list of the response.
\<close>

theorem readable_file_in_neither_list:
  "map snd (failedFiles [file_a, file_missing]
       (map (materialize example_sys) [file_a, file_missing])) = [''/tmp/missing.pdf'']
   \<and> snd (upload_files example_sys [file_a, file_missing]) =
       [ReadFile ''/tmp/a.txt'', ReadFile ''/tmp/missing.pdf'']
   \<and> text_of (fst (upload_files example_sys [file_a, file_missing])) =
       ''Files upload failed: Failed to read files given the following paths: /tmp/missing.pdf: {code:ENOENT}''"
proof -
  have some: "\<exists>file \<in> set [file_a, file_missing]. \<not> readable example_sys file"
    by (simp add: readable_def example_sys_def example_readFile_def file_missing_def)
  have unreadable: "filter (\<lambda>file. \<not> readable example_sys file) [file_a, file_missing]
      = [file_missing]"
    by (simp add: readable_def example_sys_def example_readFile_def file_a_def file_missing_def)
  have entry: "failed_file_entry (materialize example_sys file_missing, filePath file_missing)
      = ''/tmp/missing.pdf: {code:ENOENT}''"
    by (simp add: materialize_def example_sys_def example_readFile_def file_missing_def)
  show ?thesis
    unfolding upload_files_read_failure [OF some] failedFiles_conv unreadable
    by (simp add: entry text_of_error_response) (simp add: file_a_def file_missing_def)
qed

section \<open>Empty batches\<close>

text \<open>
  C7. For an empty files array, \<^verbatim>\<open>upload-files\<close> returns a well-formed response: one
  text item and the error flag set. The fault raised for the empty batch is caught by
  the handler's own \<^verbatim>\<open>catch\<close>; nothing is left uncaught, and no collaborator is called.
\<close>

theorem upload_files_empty_batch:
  "upload_files s [] =
     (\<lparr>content = [Text ''Files upload failed: No files could be read to be uploaded''],
       isError = Some True\<rparr>, [])"
  by (simp add: upload_files_def upload_files_try_def failedFiles_def map_idx_def
      error_response_def)

text \<open>
  C5, at the input where the code departs from it. With an empty list of URLs,
  \<^verbatim>\<open>upload-files-from-urls\<close> calls the upload service with the empty batch: the call
  \<^verbatim>\<open>uploadFilesFromUrl([])\<close> is in the trace, whatever the service then answers.
\<close>

theorem upload_files_from_urls_empty_batch_reaches_service:
  "snd (upload_files_from_urls s []) = [UploadFilesFromUrl []]"
  by (simp add: upload_files_from_urls_def upload_files_from_urls_try_def split: sum.split)

section \<open>Schema validation\<close>

text \<open>
  C9. A call of \<^verbatim>\<open>upload-files-from-urls\<close> whose list holds at least one string that
  fails the URL check is rejected with a validation error by the schema declared for
  \<^verbatim>\<open>filesByURL\<close>; the handler does not run, so no call is made to the upload service.
\<close>

theorem invalid_url_rejected_by_schema:
  assumes "u \<in> set filesByURL" and "\<not> valid_url u"
  shows "call_tool (filesByURL_schema valid_url) (upload_files_from_urls s) filesByURL =
     (Inl ValidationError, [])"
proof -
  from assms have "\<not> list_all valid_url filesByURL"
    by (auto simp: list_all_iff)
  then show ?thesis
    by (simp add: call_tool_def filesByURL_schema_def)
qed

theorem invalid_url_rejected_by_schema_witness:
  "call_tool (filesByURL_schema example_valid_url) (upload_files_from_urls example_sys)
     [''https://example.com/a.png'', ''not a url''] = (Inl ValidationError, [])"
proof -
  have member: "''not a url'' \<in> set [''https://example.com/a.png'', ''not a url'']"
    by simp
  have invalid: "\<not> example_valid_url ''not a url''"
    by (simp add: example_valid_url_def)
  show ?thesis
    using member invalid by (rule invalid_url_rejected_by_schema)
qed

section \<open>Initialization\<close>

text \<open>
  C10. \<^verbatim>\<open>createMCPUploadThing\<close> (both versions) throws exactly when the token is absent
  or empty, and so does \<^verbatim>\<open>main\<close> when connecting the transport succeeds (the process
  then exits with code 1 exactly in that case). With a non-empty token the server is
  built, and the handlers it registers are the handlers over the client made from that
  token: they take no token and check none.
\<close>

theorem initialization_fails_iff_token_missing:
  "isl (createMCPUploadThing host token) = (token = None \<or> token = Some [])
   \<and> isl (createMCPUploadThing_0_0_1 host token) = (token = None \<or> token = Some [])
   \<and> (connect = None \<longrightarrow>
        isl (main host connect token) = (token = None \<or> token = Some [])
        \<and> (startup host connect token = Some 1) = (token = None \<or> token = Some []))
   \<and> (t \<noteq> [] \<longrightarrow>
        createMCPUploadThing host (Some t) =
          Inr \<lparr>server_name = ''mcp-uploadthing'', server_version = ''0.0.2'',
               tools =
                 [(''upload-files'', FilesHandler (upload_files (host t))),
                  (''upload-files-from-urls'', UrlsHandler (upload_files_from_urls (host t)))]\<rparr>
        \<and> createMCPUploadThing_0_0_1 host (Some t) =
          Inr \<lparr>server_name = ''mcp-uploadthing'', server_version = ''0.0.1'',
               tools = [(''upload-file'', FileHandler (upload_file (host t)))]\<rparr>)"
  by (cases token)
    (auto simp: createMCPUploadThing_def createMCPUploadThing_0_0_1_def main_def startup_def
      Let_def)

theorem initialization_fails_iff_token_missing_witness:
  "\<not> isl (createMCPUploadThing example_host (Some ''sk_live_example''))
   \<and> \<not> isl (main example_host None (Some ''sk_live_example''))
   \<and> startup example_host None (Some ''sk_live_example'') \<noteq> Some 1
   \<and> createMCPUploadThing_0_0_1 example_host (Some ''sk_live_example'') =
       Inr \<lparr>server_name = ''mcp-uploadthing'', server_version = ''0.0.1'',
            tools = [(''upload-file'', FileHandler (upload_file example_sys))]\<rparr>"
  using initialization_fails_iff_token_missing
    [of example_host "Some ''sk_live_example''" None "''sk_live_example''"]
  by (simp add: example_host_def)

end
